theory Spec2Isabelle
  imports Main
begin

section \<open>Data model\<close>

text \<open>
  The monitor talks to Amazon Mechanical Turk through a boto3 client and reads the
  responses as dictionaries.  The keys it reads are named by constants (\<open>HIT_ID\<close>,
  \<open>ASSIGNMENTS\<close>, \<open>WORKER_ID\<close>, \<open>NEXT_TOKEN\<close>, \<open>QUALIFICATIONS\<close>,
  \<open>HITs\<close>, \<open>REQUESTER_ANNOTATION\<close>) of a module \<open>constants\<close>; a response is
  modelled as a record with one field per key the code reads, named after the constant.
  The code tests the presence of \<open>NEXT_TOKEN\<close> only; that field is optional, and so
  is the requester annotation, which the marketplace leaves out of a task that was created
  without one.  The module \<open>constants\<close> is not among the sources; nothing below depends
  on the strings it gives to the keys.

  A Python \<open>str\<close> is a sequence of Unicode code points.  The annotation, which the
  code searches and parses, is a list of code points; identifiers and tokens, which are
  only compared and passed on, are kept as \<open>string\<close>.
\<close>

type_synonym ustr = "nat list"

definition str :: "string \<Rightarrow> ustr" where
  "str s = map of_char s"

record hit =
  HIT_ID :: string
  REQUESTER_ANNOTATION :: "ustr option"

record assignment =
  WORKER_ID :: string

record qualification =
  QUAL_WORKER_ID :: string  \<comment> \<open>the key \<open>WORKER_ID\<close> of a qualification entry\<close>

record list_hits_resp =
  NEXT_TOKEN :: "string option"
  HITs :: "hit list"

record list_workers_resp =
  QUAL_NEXT_TOKEN :: "string option"  \<comment> \<open>the key \<open>NEXT_TOKEN\<close> of this response\<close>
  QUALIFICATIONS :: "qualification list"

record list_assignments_resp =
  ASSIGNMENTS :: "assignment list"

text \<open>
  The client \<open>self.mt\<close>: what the marketplace answers to each read operation, as a
  function of the keyword arguments the monitor passes (\<open>NextToken\<close> is absent from
  the first call of a listing).  \<open>list_workers_with_qualification_type\<close> takes
  \<open>Status\<close>, \<open>QualificationTypeId\<close> and \<open>NextToken\<close>;
  \<open>list_assignments_for_hit\<close> takes \<open>HITId\<close> and \<open>AssignmentStatuses\<close>.
\<close>

record mturk =
  list_hits :: "string option \<Rightarrow> list_hits_resp"
  list_workers_with_qualification_type ::
    "string \<Rightarrow> string \<Rightarrow> string option \<Rightarrow> list_workers_resp"
  list_assignments_for_hit :: "string \<Rightarrow> string list \<Rightarrow> list_assignments_resp"

text \<open>
  What the code takes from the Python runtime and does not fix itself:
  \<open>unicode_decimal\<close> is the table of the Unicode decimal digits (category Nd) with
  their values, which both \<open>\d\<close> of \<open>re\<close> and \<open>int\<close> read;
  \<open>int_max_str_digits\<close> is the longest numeral \<open>int\<close> converts, 0 for no limit;
  \<open>sleep_max\<close> is the longest interval \<open>time.sleep\<close> accepts.
\<close>

record python =
  unicode_decimal :: "nat \<Rightarrow> nat option"
  int_max_str_digits :: nat
  sleep_max :: int

text \<open>
  The fields of \<open>MTWorkerMonitor\<close>; \<open>max_hits\<close>, \<open>batch_id\<close> and
  \<open>sleep_time\<close> are Python integers, of either sign.
\<close>

record monitor =
  max_hits :: int
  batch_id :: int
  aws_access_key_id :: string
  aws_secret_access_key :: string
  mturk_endpoint_url :: string
  blacklist_qualification_id :: string
  sleep_time :: int

text \<open>What one run does to the outside, in order.\<close>

datatype log_entry =
  InitialBlacklistHeader
| InitialBlacklistWorker string
| StartMonitoring int int
| WorkerBlacklisted string

datatype event =
  Warn  \<comment> \<open>\<open>warnings.warn\<close>: no HITs were found\<close>
| AssociateQualification string string bool
    \<comment> \<open>\<open>WorkerId\<close>, \<open>QualificationTypeId\<close>, \<open>SendNotification\<close>\<close>
| LogInfo log_entry
| Sleep int

record tally =
  worker_counter :: "string \<Rightarrow> int"  \<comment> \<open>a \<open>Counter\<close>: a missing key reads 0\<close>
  blacklisted_workers :: "string set"
  effects :: "event list"

text \<open>Exceptions of the Python code, as values.\<close>

datatype error =
  AttributeError  \<comment> \<open>\<open>re.search\<close> gave \<open>None\<close> and \<open>.group\<close> was read from it\<close>
| ValueError      \<comment> \<open>\<open>int\<close> of a string it does not convert; \<open>time.sleep\<close> of a negative interval\<close>
| KeyError        \<comment> \<open>the task has no requester annotation\<close>
| OverflowError   \<comment> \<open>\<open>time.sleep\<close> of an interval that is too long\<close>

text \<open>How a run that is observed for finitely many cycles stands at the end.\<close>

datatype outcome =
  Raised error  \<comment> \<open>an exception left \<open>run\<close>\<close>
| Hangs         \<comment> \<open>a listing never stopped returning continuation tokens\<close>
| Running       \<comment> \<open>the loop is still going after the observed cycles\<close>

section \<open>utils.py: the batch filter\<close>

text \<open>
  \<open>re.search(r'BatchId:\d+', req_ann)\<close> scans the annotation from left to right and
  returns the first position at which \<open>BatchId:\<close> is followed by at least one digit; the
  digits are matched greedily.  On a \<open>str\<close> pattern \<open>\d\<close> matches every Unicode
  decimal digit.
\<close>

definition is_digit :: "python \<Rightarrow> nat \<Rightarrow> bool" where
  "is_digit py c = (unicode_decimal py c \<noteq> None)"

definition digit_val :: "python \<Rightarrow> nat \<Rightarrow> int" where
  "digit_val py c = (case unicode_decimal py c of Some v \<Rightarrow> int v | None \<Rightarrow> 0)"

definition match_at :: "python \<Rightarrow> ustr \<Rightarrow> ustr option" where
  "match_at py s =
     (if take 8 s = str ''BatchId:'' \<and> takeWhile (is_digit py) (drop 8 s) \<noteq> []
      then Some (str ''BatchId:'' @ takeWhile (is_digit py) (drop 8 s))
      else None)"

fun re_search :: "python \<Rightarrow> ustr \<Rightarrow> ustr option" where
  "re_search py [] = match_at py []"
| "re_search py (c # cs) =
     (case match_at py (c # cs) of
        Some g \<Rightarrow> Some g
      | None \<Rightarrow> re_search py cs)"

text \<open>\<open>s.split(sep)\<close> for a one-character separator: never the empty list.\<close>

fun py_split :: "'a \<Rightarrow> 'a list \<Rightarrow> 'a list list" where
  "py_split sep [] = [[]]"
| "py_split sep (c # cs) =
     (if c = sep then [] # py_split sep cs
      else (case py_split sep cs of
              [] \<Rightarrow> [[c]]
            | w # ws \<Rightarrow> (c # w) # ws))"

text \<open>
  \<open>int(s)\<close> on an unsigned decimal numeral, in the digits of any script; a numeral
  with more digits than the limit of the runtime raises, and so does any other string.
  (Python also accepts signs, blanks and underscores, which the pattern above never
  produces.)
\<close>

definition decimal :: "python \<Rightarrow> ustr \<Rightarrow> int" where
  "decimal py s = foldl (\<lambda>a c. 10 * a + digit_val py c) 0 s"

definition py_int :: "python \<Rightarrow> ustr \<Rightarrow> error + int" where
  "py_int py s =
     (if s \<noteq> [] \<and> list_all (is_digit py) s
         \<and> (int_max_str_digits py = 0 \<or> length s \<le> int_max_str_digits py)
      then Inr (decimal py s)
      else Inl ValueError)"

definition batch_id_match :: "python \<Rightarrow> hit \<Rightarrow> int \<Rightarrow> error + bool" where
  "batch_id_match py h batch_id' =
     (case REQUESTER_ANNOTATION h of
        None \<Rightarrow> Inl KeyError
      | Some req_ann \<Rightarrow>
          (case re_search py req_ann of
             None \<Rightarrow> Inl AttributeError
           | Some g \<Rightarrow>
               (case py_int py (last (py_split (of_char CHR '':'') g)) of
                  Inl e \<Rightarrow> Inl e
                | Inr hit_batch_id \<Rightarrow> Inr (hit_batch_id = batch_id'))))"

section \<open>mt\_worker\_monitor.py\<close>

definition MTWorkerMonitor_init ::
  "int \<Rightarrow> int \<Rightarrow> string \<Rightarrow> string \<Rightarrow> string \<Rightarrow> string \<Rightarrow> string \<Rightarrow> int \<Rightarrow> monitor" where
  "MTWorkerMonitor_init max_hits' batch_id' aws_access_key_id' aws_secret_access_key'
     mturk_endpoint_url' blacklist_qualification_id' region sleep_time' =
     \<lparr>max_hits = max_hits', batch_id = batch_id',
      aws_access_key_id = aws_access_key_id',
      aws_secret_access_key = aws_secret_access_key',
      mturk_endpoint_url = mturk_endpoint_url',
      blacklist_qualification_id = blacklist_qualification_id',
      sleep_time = sleep_time'\<rparr>"

subsection \<open>The paginated fetchers\<close>

text \<open>
  The comprehension \<open>[hit for hit in hits if batch_id_match(hit, self.batch_id)]\<close>:
  the first hit on which the filter raises ends it.
\<close>

fun hits_matching :: "python \<Rightarrow> hit list \<Rightarrow> int \<Rightarrow> error + hit list" where
  "hits_matching py [] bid = Inr []"
| "hits_matching py (h # hs) bid =
     (case batch_id_match py h bid of
        Inl e \<Rightarrow> Inl e
      | Inr b \<Rightarrow>
          (case hits_matching py hs bid of
             Inl e \<Rightarrow> Inl e
           | Inr r \<Rightarrow> Inr (if b then h # r else r)))"

text \<open>
  The \<open>while True\<close> loop of \<open>fetch_and_filter_hits\<close>, from the state
  (\<open>kwargs.get('NextToken')\<close>, \<open>coll\<close>).  The loop ends only at a response without
  \<open>NEXT_TOKEN\<close>; a marketplace that always sends one keeps it running, which is the
  value \<open>None\<close>.
\<close>

partial_function (option) fetch_hits_loop ::
  "python \<Rightarrow> mturk \<Rightarrow> int \<Rightarrow> string option \<Rightarrow> hit list \<Rightarrow> (error + hit list) option"
  where
  "fetch_hits_loop py mt bid tok coll =
     (let resp = list_hits mt tok in
      case NEXT_TOKEN resp of
        None \<Rightarrow> Some (Inr coll)
      | Some t \<Rightarrow>
          (case hits_matching py (HITs resp) bid of
             Inl e \<Rightarrow> Some (Inl e)
           | Inr hs \<Rightarrow> fetch_hits_loop py mt bid (Some t) (coll @ hs)))"

definition fetch_and_filter_hits ::
  "python \<Rightarrow> monitor \<Rightarrow> mturk \<Rightarrow> (error + hit list) option" where
  "fetch_and_filter_hits py self mt = fetch_hits_loop py mt (batch_id self) None []"

text \<open>
  The loop of \<open>fetch_workers_with_qualification\<close>; \<open>call\<close> is the listing
  operation with the fixed part of \<open>kwargs\<close> (\<open>Status\<close> and
  \<open>QualificationTypeId\<close>) already given.
\<close>

partial_function (option) fetch_workers_loop ::
  "(string option \<Rightarrow> list_workers_resp) \<Rightarrow> string option \<Rightarrow> string list \<Rightarrow> string list option"
  where
  "fetch_workers_loop call tok worker_ids =
     (let resp = call tok in
      case QUAL_NEXT_TOKEN resp of
        None \<Rightarrow> Some worker_ids
      | Some t \<Rightarrow>
          fetch_workers_loop call (Some t)
            (worker_ids @ map QUAL_WORKER_ID (QUALIFICATIONS resp)))"

definition fetch_workers_with_qualification :: "monitor \<Rightarrow> mturk \<Rightarrow> string list option" where
  "fetch_workers_with_qualification self mt =
     fetch_workers_loop
       (list_workers_with_qualification_type mt ''Granted'' (blacklist_qualification_id self))
       None []"

subsection \<open>One cycle of \<open>run\<close>\<close>

text \<open>The body of the loop over the assignments of one hit.\<close>

definition count_assignment :: "monitor \<Rightarrow> tally \<Rightarrow> assignment \<Rightarrow> tally" where
  "count_assignment self st a =
     (let worker_id = WORKER_ID a;
          st1 = st\<lparr>worker_counter :=
                     (worker_counter st)(worker_id := worker_counter st worker_id + 1)\<rparr>
      in if max_hits self \<le> worker_counter st1 worker_id
            \<and> worker_id \<notin> blacklisted_workers st1
         then st1\<lparr>blacklisted_workers := insert worker_id (blacklisted_workers st1),
                  effects := effects st1 @
                    [AssociateQualification worker_id (blacklist_qualification_id self) False,
                     LogInfo (WorkerBlacklisted worker_id)]\<rparr>
         else st1)"

text \<open>The body of the loop over the hits.\<close>

definition tally_hit :: "monitor \<Rightarrow> mturk \<Rightarrow> tally \<Rightarrow> hit \<Rightarrow> tally" where
  "tally_hit self mt st h =
     (let hit_id = HIT_ID h;
          resp = list_assignments_for_hit mt hit_id [''Submitted'', ''Approved''];
          assignments = ASSIGNMENTS resp
      in foldl (count_assignment self) st assignments)"

text \<open>
  The tally phase: a fresh \<open>Counter\<close>, the set of workers fetched at the start of the
  cycle, and the two nested loops.
\<close>

definition fresh_tally :: "string set \<Rightarrow> tally" where
  "fresh_tally blacklisted =
     \<lparr>worker_counter = (\<lambda>_. 0), blacklisted_workers = blacklisted, effects = []\<rparr>"

definition tally_phase :: "monitor \<Rightarrow> mturk \<Rightarrow> string set \<Rightarrow> hit list \<Rightarrow> tally" where
  "tally_phase self mt blacklisted hits =
     foldl (tally_hit self mt) (fresh_tally blacklisted) hits"

text \<open>
  \<open>time.sleep(t)\<close> for an integer \<open>t\<close>: the exception it raises, if any.  The
  interval is converted to the clock's unit first, which fails beyond \<open>sleep_max\<close> on
  either side; a negative interval is refused after that.
\<close>

definition time_sleep :: "python \<Rightarrow> int \<Rightarrow> error option" where
  "time_sleep py t =
     (if t < - sleep_max py \<or> sleep_max py < t then Some OverflowError
      else if t < 0 then Some ValueError
      else None)"

text \<open>
  One iteration of \<open>while True\<close> in \<open>run\<close>: the events it gets to, and the
  exception that ends it, if any.  Both fetches come before anything the iteration does
  to the outside; \<open>time.sleep\<close> comes last and can raise as well.
\<close>

definition cycle :: "python \<Rightarrow> monitor \<Rightarrow> mturk \<Rightarrow> (event list \<times> error option) option" where
  "cycle py self mt =
     (case fetch_workers_with_qualification self mt of
        None \<Rightarrow> None
      | Some ws \<Rightarrow>
          (case fetch_and_filter_hits py self mt of
             None \<Rightarrow> None
           | Some (Inl e) \<Rightarrow> Some ([], Some e)
           | Some (Inr hits) \<Rightarrow>
               (let evs = (if length hits = 0 then [Warn] else [])
                          @ effects (tally_phase self mt (set ws) hits)
                in case time_sleep py (sleep_time self) of
                     Some e \<Rightarrow> Some (evs, Some e)
                   | None \<Rightarrow> Some (evs @ [Sleep (sleep_time self)], None))))"

text \<open>
  The loop never ends by itself.  It is observed over a finite list of marketplace
  snapshots, one per iteration; when the list is used up the loop is still \<open>Running\<close>.
\<close>

fun run_loop :: "python \<Rightarrow> monitor \<Rightarrow> mturk list \<Rightarrow> event list \<times> outcome" where
  "run_loop py self [] = ([], Running)"
| "run_loop py self (mt # mts) =
     (case cycle py self mt of
        None \<Rightarrow> ([], Hangs)
      | Some (evs, Some e) \<Rightarrow> (evs, Raised e)
      | Some (evs, None) \<Rightarrow>
          (evs @ fst (run_loop py self mts), snd (run_loop py self mts)))"

definition run :: "python \<Rightarrow> monitor \<Rightarrow> mturk \<Rightarrow> mturk list \<Rightarrow> event list \<times> outcome" where
  "run py self mt0 mts =
     (case fetch_workers_with_qualification self mt0 of
        None \<Rightarrow> ([], Hangs)
      | Some init_blacklisted_workers \<Rightarrow>
          (let startup =
                 (if length init_blacklisted_workers > 0
                  then LogInfo InitialBlacklistHeader
                       # map (\<lambda>worker_id. LogInfo (InitialBlacklistWorker worker_id))
                           init_blacklisted_workers
                  else [])
                 @ [LogInfo (StartMonitoring (batch_id self) (sleep_time self))]
           in (startup @ fst (run_loop py self mts), snd (run_loop py self mts))))"

text \<open>The workers a trace grants the qualification to, in order.\<close>

fun granted :: "event list \<Rightarrow> string list" where
  "granted [] = []"
| "granted (AssociateQualification w q n # evs) = w # granted evs"
| "granted (_ # evs) = granted evs"

section \<open>Notions used to state the properties\<close>

text \<open>
  The table of the decimal digits is the one of every Python on the ASCII code points: the
  digits \<open>0\<close> to \<open>9\<close> with their values, and nothing else.
\<close>

definition ascii_decimal :: "python \<Rightarrow> bool" where
  "ascii_decimal py =
     (\<forall>c<128. unicode_decimal py c = (if 48 \<le> c \<and> c \<le> 57 then Some (c - 48) else None))"

text \<open>
  \<open>served_hits mt tok pages tok'\<close>: asked from the token \<open>tok\<close> on, the task listing
  answers with the responses \<open>pages\<close> in this order, each of them carrying a
  continuation token, and \<open>tok'\<close> is the token to send next.
\<close>

fun served_hits ::
  "mturk \<Rightarrow> string option \<Rightarrow> list_hits_resp list \<Rightarrow> string option \<Rightarrow> bool" where
  "served_hits mt tok [] tok' = (tok' = tok)"
| "served_hits mt tok (p # ps) tok' =
     (list_hits mt tok = p \<and> NEXT_TOKEN p \<noteq> None \<and> served_hits mt (NEXT_TOKEN p) ps tok')"

text \<open>The same for the listing of the workers who hold a qualification.\<close>

fun served_workers ::
  "(string option \<Rightarrow> list_workers_resp) \<Rightarrow> string option \<Rightarrow> list_workers_resp list
     \<Rightarrow> string option \<Rightarrow> bool" where
  "served_workers call tok [] tok' = (tok' = tok)"
| "served_workers call tok (p # ps) tok' =
     (call tok = p \<and> QUAL_NEXT_TOKEN p \<noteq> None
      \<and> served_workers call (QUAL_NEXT_TOKEN p) ps tok')"

text \<open>The filter applied page after page, results concatenated in page order.\<close>

fun pages_matching :: "python \<Rightarrow> list_hits_resp list \<Rightarrow> int \<Rightarrow> error + hit list" where
  "pages_matching py [] bid = Inr []"
| "pages_matching py (p # ps) bid =
     (case hits_matching py (HITs p) bid of
        Inl e \<Rightarrow> Inl e
      | Inr hs \<Rightarrow>
          (case pages_matching py ps bid of
             Inl e \<Rightarrow> Inl e
           | Inr r \<Rightarrow> Inr (hs @ r)))"

text \<open>The assignments that the tally phase reads, in the order it reads them.\<close>

definition assignments_of :: "mturk \<Rightarrow> hit list \<Rightarrow> assignment list" where
  "assignments_of mt hits =
     concat (map (\<lambda>h. ASSIGNMENTS
                          (list_assignments_for_hit mt (HIT_ID h) [''Submitted'', ''Approved'']))
               hits)"

subsection \<open>A runtime and small marketplaces to compute on\<close>

text \<open>
  A runtime whose table holds the ASCII digits and the Arabic-Indic digits (U+0660 to
  U+0669), a part of the table of Python; the limits are those of CPython 3.11.
\<close>

definition python_example :: python where
  "python_example =
     \<lparr>unicode_decimal =
        (\<lambda>c. if 48 \<le> c \<and> c \<le> 57 then Some (c - 48)
             else if 1632 \<le> c \<and> c \<le> 1641 then Some (c - 1632)
             else None),
      int_max_str_digits = 4300,
      sleep_max = 9223372036\<rparr>"

definition hit1 :: hit where
  "hit1 = \<lparr>HIT_ID = ''H1'', REQUESTER_ANNOTATION = Some (str ''BatchId:42'')\<rparr>"

definition hit2 :: hit where
  "hit2 = \<lparr>HIT_ID = ''H2'', REQUESTER_ANNOTATION = Some (str ''BatchId:42'')\<rparr>"

definition hits_page1 :: list_hits_resp where
  "hits_page1 = \<lparr>NEXT_TOKEN = Some ''t1'', HITs = [hit1]\<rparr>"

definition hits_page2 :: list_hits_resp where
  "hits_page2 = \<lparr>NEXT_TOKEN = None, HITs = [hit2]\<rparr>"

definition workers_page1 :: list_workers_resp where
  "workers_page1 =
     \<lparr>QUAL_NEXT_TOKEN = Some ''t1'', QUALIFICATIONS = [\<lparr>QUAL_WORKER_ID = ''W1''\<rparr>]\<rparr>"

definition workers_page2 :: list_workers_resp where
  "workers_page2 =
     \<lparr>QUAL_NEXT_TOKEN = None, QUALIFICATIONS = [\<lparr>QUAL_WORKER_ID = ''W2''\<rparr>]\<rparr>"

definition scenario_assignments :: "assignment list" where
  "scenario_assignments =
     map (\<lambda>w. \<lparr>WORKER_ID = w\<rparr>) [''A'', ''A'', ''B'', ''A'', ''C'', ''B'']"

text \<open>Every listing has two pages; the second one is the last.\<close>

definition two_pages :: mturk where
  "two_pages =
     \<lparr>list_hits = (\<lambda>tok. if tok = None then hits_page1 else hits_page2),
      list_workers_with_qualification_type =
        (\<lambda>status q tok. if tok = None then workers_page1 else workers_page2),
      list_assignments_for_hit =
        (\<lambda>hit_id statuses.
           \<lparr>ASSIGNMENTS = (if hit_id = ''H1'' then scenario_assignments else [])\<rparr>)\<rparr>"

text \<open>Every listing has one page, and so no continuation token.\<close>

definition one_page :: mturk where
  "one_page =
     \<lparr>list_hits = (\<lambda>tok. hits_page2),
      list_workers_with_qualification_type = (\<lambda>status q tok. workers_page2),
      list_assignments_for_hit = (\<lambda>hit_id statuses. \<lparr>ASSIGNMENTS = []\<rparr>)\<rparr>"

definition monitor42 :: monitor where
  "monitor42 = MTWorkerMonitor_init 3 42 ''key'' ''secret'' ''url'' ''Q1'' ''us-east-1'' 10"

text \<open>
  The marketplace \<open>two_pages\<close> with other assignments: \<open>W1\<close>, who holds the
  qualification, and \<open>A\<close>, who does not, are both over the limit of 3.
\<close>

definition busy_assignments :: "assignment list" where
  "busy_assignments =
     map (\<lambda>w. \<lparr>WORKER_ID = w\<rparr>) [''W1'', ''W1'', ''W1'', ''A'', ''A'', ''A'', ''A'']"

definition busy :: mturk where
  "busy = two_pages\<lparr>list_assignments_for_hit :=
                       (\<lambda>hit_id statuses. \<lparr>ASSIGNMENTS = busy_assignments\<rparr>)\<rparr>"

text \<open>The marketplace \<open>two_pages\<close> with another task listing.\<close>

definition other_hits :: mturk where
  "other_hits = two_pages\<lparr>list_hits := (\<lambda>tok. hits_page2)\<rparr>"

text \<open>
  Tasks: one with two batch tokens; one whose batch number has more digits than
  \<open>int\<close> converts; one whose first token is written \<open>4\<close> and then the
  Arabic-Indic digit three; one without a token.
\<close>

definition hit_two_tokens :: hit where
  "hit_two_tokens =
     \<lparr>HIT_ID = ''H3'', REQUESTER_ANNOTATION = Some (str ''BatchId:1 BatchId:2'')\<rparr>"

definition hit_long :: hit where
  "hit_long =
     \<lparr>HIT_ID = ''H6'', REQUESTER_ANNOTATION = Some (str ''BatchId:'' @ replicate 4301 49)\<rparr>"

definition hit_prefixed :: hit where
  "hit_prefixed =
     \<lparr>HIT_ID = ''H4'',
      REQUESTER_ANNOTATION = Some (str ''xBatchId:4'' @ [1635] @ str '';BatchId:7'')\<rparr>"

definition hit_unmarked :: hit where
  "hit_unmarked = \<lparr>HIT_ID = ''H5'', REQUESTER_ANNOTATION = Some (str ''Batch 42'')\<rparr>"

text \<open>
  The task without a token on a page with a continuation token, and on a page without
  one.
\<close>

definition hits_page_unmarked :: list_hits_resp where
  "hits_page_unmarked = \<lparr>NEXT_TOKEN = Some ''t1'', HITs = [hit1, hit_unmarked]\<rparr>"

definition unmarked :: mturk where
  "unmarked =
     two_pages\<lparr>list_hits := (\<lambda>tok. if tok = None then hits_page_unmarked else hits_page2)\<rparr>"

definition unmarked_last :: mturk where
  "unmarked_last =
     two_pages\<lparr>list_hits := (\<lambda>tok. \<lparr>NEXT_TOKEN = None, HITs = [hit_unmarked]\<rparr>)\<rparr>"

text \<open>The monitor with intervals that \<open>time.sleep\<close> refuses.\<close>

definition monitor_negative_sleep :: monitor where
  "monitor_negative_sleep =
     MTWorkerMonitor_init 3 42 ''key'' ''secret'' ''url'' ''Q1'' ''us-east-1'' (- 1)"

definition monitor_long_sleep :: monitor where
  "monitor_long_sleep =
     MTWorkerMonitor_init 3 42 ''key'' ''secret'' ''url'' ''Q1'' ''us-east-1'' 10000000000"

section \<open>Lemmas on the batch filter\<close>

lemma str_BatchId: "str ''BatchId:'' = str ''BatchId'' @ [of_char CHR '':'']"
  by (simp add: str_def)

lemma length_str_BatchId: "length (str ''BatchId:'') = 8"
  by (simp add: str_def)

lemma py_split_no_sep: "sep \<notin> set s \<Longrightarrow> py_split sep s = [s]"
  by (induction s) auto

lemma py_split_sep_snoc:
  "sep \<notin> set ds \<Longrightarrow> \<exists>ys. ys \<noteq> [] \<and> py_split sep (xs @ sep # ds) = ys @ [ds]"
proof (induction xs)
  case Nil
  then have "py_split sep ([] @ sep # ds) = [[]] @ [ds]"
    by (simp add: py_split_no_sep)
  then show ?case by blast
next
  case (Cons x xs)
  then obtain ys where ys: "ys \<noteq> []" "py_split sep (xs @ sep # ds) = ys @ [ds]"
    by blast
  then obtain y ys' where y: "ys = y # ys'" by (cases ys) auto
  show ?case
  proof (cases "x = sep")
    case True
    with ys have "py_split sep ((x # xs) @ sep # ds) = ([] # ys) @ [ds]" by simp
    then show ?thesis by blast
  next
    case False
    with ys y have "py_split sep ((x # xs) @ sep # ds) = ((x # y) # ys') @ [ds]" by simp
    then show ?thesis by blast
  qed
qed

lemma last_py_split_sep: "sep \<notin> set ds \<Longrightarrow> last (py_split sep (xs @ sep # ds)) = ds"
  using py_split_sep_snoc [of sep ds xs] by auto

lemma colon_not_digit: "ascii_decimal py \<Longrightarrow> \<not> is_digit py (of_char CHR '':'')"
  by (simp add: ascii_decimal_def is_digit_def)

lemma last_split_group:
  assumes "ascii_decimal py" "list_all (is_digit py) ds"
  shows "last (py_split (of_char CHR '':'') (str ''BatchId:'' @ ds)) = ds"
proof -
  have "of_char CHR '':'' \<notin> set ds"
    using assms colon_not_digit [of py] by (auto simp: list_all_iff)
  from last_py_split_sep [OF this, of "str ''BatchId''"] show ?thesis
    by (simp add: str_BatchId)
qed

lemma match_at_Some:
  "match_at py s = Some g \<Longrightarrow>
   g = str ''BatchId:'' @ takeWhile (is_digit py) (drop 8 s) \<and> take 8 s = str ''BatchId:''
   \<and> takeWhile (is_digit py) (drop 8 s) \<noteq> []"
  by (auto simp: match_at_def split: if_splits)

lemma re_search_Some:
  "re_search py s = Some g \<Longrightarrow>
   \<exists>ds. g = str ''BatchId:'' @ ds \<and> ds \<noteq> [] \<and> list_all (is_digit py) ds"
proof (induction s)
  case Nil
  then show ?case by (simp add: match_at_def)
next
  case (Cons c cs)
  show ?case
  proof (cases "match_at py (c # cs)")
    case None
    with Cons show ?thesis by simp
  next
    case (Some g')
    with Cons.prems have "g' = g" by simp
    with match_at_Some [OF Some] show ?thesis
      by (metis list_all_iff set_takeWhileD)
  qed
qed

lemma batch_id_match_found:
  assumes "ascii_decimal py" and "REQUESTER_ANNOTATION h = Some ann"
    and "re_search py ann = Some (str ''BatchId:'' @ ds)"
  shows "batch_id_match py h b =
           (if int_max_str_digits py = 0 \<or> length ds \<le> int_max_str_digits py
            then Inr (decimal py ds = b) else Inl ValueError)"
proof -
  from re_search_Some [OF assms(3)] have ds: "ds \<noteq> []" "list_all (is_digit py) ds"
    by auto
  show ?thesis
    unfolding batch_id_match_def
    by (simp only: assms(2,3) option.case last_split_group [OF assms(1) ds(2)])
       (simp add: py_int_def ds)
qed

lemma match_at_occurrence:
  assumes "match_at py s = Some g"
  shows "\<exists>d r. is_digit py d \<and> s = str ''BatchId:'' @ d # r"
proof -
  from match_at_Some [OF assms]
  have t: "take 8 s = str ''BatchId:''" and n: "takeWhile (is_digit py) (drop 8 s) \<noteq> []"
    by auto
  from n obtain d r where dr: "drop 8 s = d # r" "is_digit py d"
    by (cases "drop 8 s") (auto split: if_splits)
  have "s = take 8 s @ drop 8 s" by simp
  with t dr have "s = str ''BatchId:'' @ d # r" by simp
  with dr show ?thesis by blast
qed

lemma re_search_skip:
  "(\<forall>p d r. is_digit py d \<and> length p < length pre \<longrightarrow>
       pre @ s \<noteq> p @ str ''BatchId:'' @ d # r) \<Longrightarrow>
   re_search py (pre @ s) = re_search py s"
proof (induction pre)
  case Nil
  show ?case by simp
next
  case (Cons c pre)
  have m: "match_at py (c # pre @ s) = None"
  proof (cases "match_at py (c # pre @ s)")
    case (Some g)
    from match_at_occurrence [OF Some] obtain d r where
      "is_digit py d" "(c # pre) @ s = [] @ str ''BatchId:'' @ d # r" by auto
    moreover have "length ([]::ustr) < length (c # pre)" by simp
    ultimately show ?thesis using Cons.prems by blast
  qed simp
  have "\<forall>p d r. is_digit py d \<and> length p < length pre \<longrightarrow>
          pre @ s \<noteq> p @ str ''BatchId:'' @ d # r"
  proof (intro allI impI notI)
    fix p d r
    assume "is_digit py d \<and> length p < length pre" "pre @ s = p @ str ''BatchId:'' @ d # r"
    then have "is_digit py d \<and> length (c # p) < length (c # pre)"
      "(c # pre) @ s = (c # p) @ str ''BatchId:'' @ d # r" by simp_all
    with Cons.prems show False by blast
  qed
  from Cons.IH [OF this] m show ?case by simp
qed

lemma re_search_here:
  assumes "ds \<noteq> []" "list_all (is_digit py) ds" "suf = [] \<or> \<not> is_digit py (hd suf)"
  shows "re_search py (str ''BatchId:'' @ ds @ suf) = Some (str ''BatchId:'' @ ds)"
proof -
  have "takeWhile (is_digit py) suf = []"
    using assms(3) by (simp add: takeWhile_eq_Nil_iff)
  moreover have "\<forall>x\<in>set ds. is_digit py x" using assms(2) by (simp add: list_all_iff)
  ultimately have "takeWhile (is_digit py) (ds @ suf) = ds" by simp
  then have m: "match_at py (str ''BatchId:'' @ ds @ suf) = Some (str ''BatchId:'' @ ds)"
    using assms(1) by (simp add: match_at_def length_str_BatchId)
  obtain c cs where "str ''BatchId:'' @ ds @ suf = c # cs"
    by (simp add: str_def)
  with m show ?thesis by simp
qed

section \<open>Lemmas on the paginated fetchers\<close>

lemma fetch_hits_loop_served:
  "served_hits mt tok pages tok' \<Longrightarrow>
   fetch_hits_loop py mt bid tok coll =
     (case pages_matching py pages bid of
        Inl e \<Rightarrow> Some (Inl e)
      | Inr hs \<Rightarrow> fetch_hits_loop py mt bid tok' (coll @ hs))"
proof (induction pages arbitrary: tok coll)
  case Nil
  then show ?case by simp
next
  case (Cons p ps)
  from Cons.prems obtain t where p: "list_hits mt tok = p" and t: "NEXT_TOKEN p = Some t"
    and rest: "served_hits mt (Some t) ps tok'"
    by auto
  show ?case
    by (subst fetch_hits_loop.simps)
       (simp add: p t Cons.IH [OF rest] split: sum.splits)
qed

lemma fetch_hits_loop_stop:
  "NEXT_TOKEN (list_hits mt tok) = None \<Longrightarrow> fetch_hits_loop py mt bid tok coll = Some (Inr coll)"
  by (subst fetch_hits_loop.simps) simp

lemma fetch_workers_loop_served:
  "served_workers call tok pages tok' \<Longrightarrow>
   fetch_workers_loop call tok ws =
     fetch_workers_loop call tok'
       (ws @ concat (map (\<lambda>p. map QUAL_WORKER_ID (QUALIFICATIONS p)) pages))"
proof (induction pages arbitrary: tok ws)
  case Nil
  then show ?case by simp
next
  case (Cons p ps)
  from Cons.prems obtain t where p: "call tok = p" and t: "QUAL_NEXT_TOKEN p = Some t"
    and rest: "served_workers call (Some t) ps tok'"
    by auto
  show ?case
    by (subst fetch_workers_loop.simps)
       (simp add: p t Cons.IH [OF rest])
qed

lemma fetch_workers_loop_stop:
  "QUAL_NEXT_TOKEN (call tok) = None \<Longrightarrow> fetch_workers_loop call tok ws = Some ws"
  by (subst fetch_workers_loop.simps) simp

section \<open>Lemmas on the tally phase\<close>

lemma granted_append: "granted (xs @ ys) = granted xs @ granted ys"
  by (induction xs rule: granted.induct) auto

lemma foldl_tally_hit:
  "foldl (tally_hit self mt) st hits = foldl (count_assignment self) st (assignments_of mt hits)"
  by (induction hits arbitrary: st) (simp_all add: assignments_of_def tally_hit_def)

lemma tally_phase_flat:
  "tally_phase self mt B hits =
     foldl (count_assignment self) (fresh_tally B) (assignments_of mt hits)"
  by (simp add: tally_phase_def foldl_tally_hit)

lemma granted_count_assignment:
  "granted (effects (count_assignment self st a)) =
     granted (effects st) @
       (if max_hits self \<le> worker_counter st (WORKER_ID a) + 1
           \<and> WORKER_ID a \<notin> blacklisted_workers st
        then [WORKER_ID a] else [])"
  by (simp add: count_assignment_def Let_def granted_append)

lemma counter_count_assignment:
  "worker_counter (count_assignment self st a) w =
     worker_counter st w + (if w = WORKER_ID a then 1 else 0)"
  by (simp add: count_assignment_def Let_def)

lemma blacklisted_count_assignment:
  "blacklisted_workers (count_assignment self st a) =
     blacklisted_workers st \<union>
       (if max_hits self \<le> worker_counter st (WORKER_ID a) + 1
           \<and> WORKER_ID a \<notin> blacklisted_workers st
        then {WORKER_ID a} else {})"
  by (simp add: count_assignment_def Let_def)

lemma tally_invariant:
  fixes self :: monitor and B :: "string set" and as :: "assignment list"
  defines "st \<equiv> foldl (count_assignment self) (fresh_tally B) as"
  shows "(\<forall>w. worker_counter st w = int (count_list (map WORKER_ID as) w))
       \<and> blacklisted_workers st = B \<union> set (granted (effects st))
       \<and> distinct (granted (effects st))
       \<and> set (granted (effects st)) =
           {w \<in> WORKER_ID ` set as.
              w \<notin> B \<and> max_hits self \<le> int (count_list (map WORKER_ID as) w)}"
  unfolding st_def
proof (induction as rule: rev_induct)
  case Nil
  show ?case by (simp add: fresh_tally_def)
next
  case (snoc a as)
  define s where "s = foldl (count_assignment self) (fresh_tally B) as"
  from snoc [folded s_def]
  have c: "\<And>w. worker_counter s w = int (count_list (map WORKER_ID as) w)"
    and b: "blacklisted_workers s = B \<union> set (granted (effects s))"
    and d: "distinct (granted (effects s))"
    and g: "set (granted (effects s)) =
           {w \<in> WORKER_ID ` set as.
              w \<notin> B \<and> max_hits self \<le> int (count_list (map WORKER_ID as) w)}"
    by auto
  have step: "foldl (count_assignment self) (fresh_tally B) (as @ [a]) = count_assignment self s a"
    by (simp add: s_def)
  have 1: "\<forall>w. worker_counter (count_assignment self s a) w
             = int (count_list (map WORKER_ID (as @ [a])) w)"
    by (simp add: counter_count_assignment c)
  have 2: "blacklisted_workers (count_assignment self s a)
             = B \<union> set (granted (effects (count_assignment self s a)))"
    by (auto simp: blacklisted_count_assignment granted_count_assignment b)
  have 3: "distinct (granted (effects (count_assignment self s a)))"
    by (auto simp: granted_count_assignment d b)
  have 4: "set (granted (effects (count_assignment self s a))) =
           {w \<in> WORKER_ID ` set (as @ [a]).
              w \<notin> B \<and> max_hits self \<le> int (count_list (map WORKER_ID (as @ [a])) w)}"
    unfolding granted_count_assignment b c
    by (auto simp: g)
  show ?case unfolding step using 1 2 3 4 by blast
qed

lemma granted_cycle:
  assumes "cycle py self mt = Some (evs, err)"
  shows "\<exists>ws. fetch_workers_with_qualification self mt = Some ws
           \<and> (granted evs = []
                \<or> (\<exists>hits. granted evs = granted (effects (tally_phase self mt (set ws) hits))))"
  using assms
  by (auto simp: cycle_def Let_def granted_append split: option.splits sum.splits)

lemma distinct_set_single: "distinct xs \<Longrightarrow> set xs = {a} \<Longrightarrow> xs = [a]"
proof (cases xs)
  case Nil
  assume "set xs = {a}"
  with Nil show ?thesis by simp
next
  case (Cons x ys)
  assume d: "distinct xs" and s: "set xs = {a}"
  from s Cons have x: "x = a" by auto
  have "ys = []"
  proof (cases ys)
    case Nil
    then show ?thesis .
  next
    case (Cons y zs)
    with s \<open>xs = x # ys\<close> have "y = a" by auto
    with d x Cons \<open>xs = x # ys\<close> show ?thesis by simp
  qed
  with x Cons show ?thesis by simp
qed

lemma count_list_distinct: "distinct xs \<Longrightarrow> count_list xs x \<le> 1"
  by (induction xs) auto

section \<open>Lemmas on the examples\<close>

lemma ascii_decimal_python_example: "ascii_decimal python_example"
  by (simp add: ascii_decimal_def python_example_def)

lemma monitor42_fields:
  "max_hits monitor42 = 3" "batch_id monitor42 = 42"
  "blacklist_qualification_id monitor42 = ''Q1''" "sleep_time monitor42 = 10"
  by (simp_all add: monitor42_def MTWorkerMonitor_init_def)

lemma batch_id_match_hit1:
  "batch_id_match python_example hit1 42 = Inr True"
  "batch_id_match python_example hit2 42 = Inr True"
  by (simp_all add: hit1_def hit2_def str_def batch_id_match_def match_at_def is_digit_def
        python_example_def py_int_def decimal_def digit_val_def)

lemma batch_id_match_hit_unmarked:
  "batch_id_match python_example hit_unmarked 42 = Inl AttributeError"
  by (simp add: hit_unmarked_def str_def batch_id_match_def match_at_def)

lemma fetch_hits_first_page:
  assumes "list_hits mt = list_hits two_pages"
  shows "fetch_and_filter_hits python_example monitor42 mt = Some (Inr [hit1])"
proof -
  have s: "served_hits mt None [hits_page1] (Some ''t1'')"
    by (simp add: assms two_pages_def hits_page1_def)
  have l: "NEXT_TOKEN (list_hits mt (Some ''t1'')) = None"
    by (simp add: assms two_pages_def hits_page2_def)
  show ?thesis
    unfolding fetch_and_filter_hits_def monitor42_fields
    by (simp add: fetch_hits_loop_served [OF s] fetch_hits_loop_stop [OF l] hits_page1_def
          batch_id_match_hit1)
qed

lemma fetch_workers_first_page:
  assumes "list_workers_with_qualification_type mt = list_workers_with_qualification_type two_pages"
  shows "fetch_workers_with_qualification monitor42 mt = Some [''W1'']"
proof -
  let ?call = "list_workers_with_qualification_type mt ''Granted'' ''Q1''"
  have s: "served_workers ?call None [workers_page1] (Some ''t1'')"
    by (simp add: assms two_pages_def workers_page1_def)
  have l: "QUAL_NEXT_TOKEN (?call (Some ''t1'')) = None"
    by (simp add: assms two_pages_def workers_page2_def)
  show ?thesis
    unfolding fetch_workers_with_qualification_def monitor42_fields
    by (simp add: fetch_workers_loop_served [OF s]
          fetch_workers_loop_stop [of ?call "Some ''t1''", OF l] workers_page1_def)
qed

lemma time_sleep_10: "time_sleep python_example 10 = None"
  by (simp add: time_sleep_def python_example_def)

lemma cycle_busy:
  "cycle python_example monitor42 busy =
     Some ([AssociateQualification ''A'' ''Q1'' False, LogInfo (WorkerBlacklisted ''A''),
            Sleep 10], None)"
proof -
  have w: "fetch_workers_with_qualification monitor42 busy = Some [''W1'']"
    by (rule fetch_workers_first_page) (simp add: busy_def)
  have h: "fetch_and_filter_hits python_example monitor42 busy = Some (Inr [hit1])"
    by (rule fetch_hits_first_page) (simp add: busy_def)
  have t: "effects (tally_phase monitor42 busy {''W1''} [hit1]) =
     [AssociateQualification ''A'' ''Q1'' False, LogInfo (WorkerBlacklisted ''A'')]"
    by (simp add: tally_phase_def tally_hit_def fresh_tally_def busy_def busy_assignments_def
          count_assignment_def Let_def monitor42_fields)
  show ?thesis
    by (simp add: cycle_def w h t monitor42_fields time_sleep_10)
qed

lemma fetch_first_response_last:
  assumes "NEXT_TOKEN (list_hits mt None) = None"
  shows "fetch_and_filter_hits py self mt = Some (Inr [])"
  unfolding fetch_and_filter_hits_def by (rule fetch_hits_loop_stop [OF assms])

lemma fetch_one_page:
  "fetch_workers_with_qualification self one_page = Some []"
  "fetch_and_filter_hits py self one_page = Some (Inr [])"
proof -
  let ?call = "list_workers_with_qualification_type one_page ''Granted''
                 (blacklist_qualification_id self)"
  have "QUAL_NEXT_TOKEN (?call None) = None"
    by (simp add: one_page_def workers_page2_def)
  from fetch_workers_loop_stop [of ?call None, OF this]
  show "fetch_workers_with_qualification self one_page = Some []"
    by (simp add: fetch_workers_with_qualification_def)
  show "fetch_and_filter_hits py self one_page = Some (Inr [])"
    by (rule fetch_first_response_last) (simp add: one_page_def hits_page2_def)
qed

lemma cycle_no_hits:
  assumes "fetch_workers_with_qualification self mt = Some ws"
    and "fetch_and_filter_hits py self mt = Some (Inr [])"
  shows "cycle py self mt =
           (case time_sleep py (sleep_time self) of
              Some e \<Rightarrow> Some ([Warn], Some e)
            | None \<Rightarrow> Some ([Warn, Sleep (sleep_time self)], None))"
  by (simp add: cycle_def assms tally_phase_def fresh_tally_def split: option.splits)

section \<open>The claims on the batch filter\<close>

text \<open>
  C6.  The claim: when the annotation of a task contains the token \<open>BatchId:N\<close>,
  \<open>batch_id_match\<close> is true for \<open>N\<close> and false for every other integer.
  \<open>re.search\<close> returns the leftmost match only: in \<open>BatchId:1 BatchId:2\<close> the
  token \<open>BatchId:2\<close> is there, and the filter is false for 2 and true for 1.  And
  \<open>int\<close> refuses a numeral that is too long: on a token of 4301 digits the filter
  raises.
\<close>

theorem second_token_ignored:
  "REQUESTER_ANNOTATION hit_two_tokens
     = Some (str ''BatchId:1 '' @ str ''BatchId:'' @ str ''2'' @ [])
   \<and> batch_id_match python_example hit_two_tokens 2 = Inr False
   \<and> batch_id_match python_example hit_two_tokens 1 = Inr True
   \<and> REQUESTER_ANNOTATION hit_long = Some ([] @ str ''BatchId:'' @ replicate 4301 49 @ [])
   \<and> list_all (is_digit python_example) (replicate 4301 49)
   \<and> batch_id_match python_example hit_long (decimal python_example (replicate 4301 49))
       = Inl ValueError"
proof -
  have two: "REQUESTER_ANNOTATION hit_two_tokens
     = Some (str ''BatchId:1 '' @ str ''BatchId:'' @ str ''2'' @ [])"
    "batch_id_match python_example hit_two_tokens 2 = Inr False"
    "batch_id_match python_example hit_two_tokens 1 = Inr True"
    by (simp_all add: hit_two_tokens_def str_def batch_id_match_def match_at_def is_digit_def
          python_example_def py_int_def decimal_def digit_val_def)
  have d: "list_all (is_digit python_example) (replicate 4301 49)"
    by (simp add: list_all_iff is_digit_def python_example_def)
  have a: "REQUESTER_ANNOTATION hit_long = Some ([] @ str ''BatchId:'' @ replicate 4301 49 @ [])"
    by (simp add: hit_long_def)
  have n: "replicate 4301 (49::nat) \<noteq> []" by simp
  have "re_search python_example (str ''BatchId:'' @ replicate 4301 49 @ [])
          = Some (str ''BatchId:'' @ replicate 4301 49)"
    by (rule re_search_here [OF n d]) simp
  then have r: "re_search python_example ([] @ str ''BatchId:'' @ replicate 4301 49 @ [])
          = Some (str ''BatchId:'' @ replicate 4301 49)"
    by simp
  from batch_id_match_found [OF ascii_decimal_python_example a r]
  have "batch_id_match python_example hit_long (decimal python_example (replicate 4301 49))
       = Inl ValueError"
    by (simp add: python_example_def)
  with two d a show ?thesis by (simp only: simp_thms)
qed

text \<open>
  C6, as the code has it.  When the leftmost place of the annotation at which
  \<open>BatchId:\<close> is followed by a digit carries the digits \<open>ds\<close>, all of them up to the
  first character that is not a digit, and \<open>int\<close> converts a numeral of this length,
  the filter is true for the integer that \<open>ds\<close> denotes and false for every other
  integer.  The digits are those of any script.
\<close>

theorem batch_id_match_first_token:
  assumes "ascii_decimal py"
    and "REQUESTER_ANNOTATION h = Some (pre @ str ''BatchId:'' @ ds @ suf)"
    and "ds \<noteq> []" and "list_all (is_digit py) ds"
    and "suf = [] \<or> \<not> is_digit py (hd suf)"
    and "\<forall>p d r. is_digit py d \<and> length p < length pre \<longrightarrow>
           pre @ str ''BatchId:'' @ ds @ suf \<noteq> p @ str ''BatchId:'' @ d # r"
    and "int_max_str_digits py = 0 \<or> length ds \<le> int_max_str_digits py"
  shows "batch_id_match py h (decimal py ds) = Inr True
         \<and> (\<forall>M. M \<noteq> decimal py ds \<longrightarrow> batch_id_match py h M = Inr False)"
proof -
  have "re_search py (pre @ str ''BatchId:'' @ ds @ suf)
          = re_search py (str ''BatchId:'' @ ds @ suf)"
    by (rule re_search_skip) (rule assms(6))
  also have "\<dots> = Some (str ''BatchId:'' @ ds)"
    by (rule re_search_here [OF assms(3,4,5)])
  finally have r: "re_search py (pre @ str ''BatchId:'' @ ds @ suf)
                     = Some (str ''BatchId:'' @ ds)" .
  from batch_id_match_found [OF assms(1,2) r] assms(7)
  have "batch_id_match py h b = Inr (decimal py ds = b)" for b
    by auto
  then show ?thesis by simp
qed

theorem batch_id_match_first_token_witness:
  "REQUESTER_ANNOTATION hit_prefixed
     = Some (str ''x'' @ str ''BatchId:'' @ [52, 1635] @ str '';BatchId:7'')
   \<and> decimal python_example [52, 1635] = 43
   \<and> batch_id_match python_example hit_prefixed 43 = Inr True
   \<and> batch_id_match python_example hit_prefixed 4 = Inr False
   \<and> batch_id_match python_example hit_prefixed 7 = Inr False"
proof -
  have a: "REQUESTER_ANNOTATION hit_prefixed
     = Some (str ''x'' @ str ''BatchId:'' @ [52, 1635] @ str '';BatchId:7'')"
    by (simp add: hit_prefixed_def str_def)
  have d: "[52, 1635] \<noteq> ([]::ustr)" "list_all (is_digit python_example) [52, 1635]"
    "str '';BatchId:7'' = [] \<or> \<not> is_digit python_example (hd (str '';BatchId:7''))"
    by (simp_all add: is_digit_def python_example_def str_def)
  have v: "decimal python_example [52, 1635] = 43"
    by (simp add: decimal_def digit_val_def python_example_def)
  have n: "\<forall>p d r. is_digit python_example d \<and> length p < length (str ''x'') \<longrightarrow>
           str ''x'' @ str ''BatchId:'' @ [52, 1635] @ str '';BatchId:7''
             \<noteq> p @ str ''BatchId:'' @ d # r"
    by (simp add: str_def)
  have l: "int_max_str_digits python_example = 0
           \<or> length [52, 1635 :: nat] \<le> int_max_str_digits python_example"
    by (simp add: python_example_def)
  from batch_id_match_first_token [OF ascii_decimal_python_example a d n l] a v
  show ?thesis by simp
qed

text \<open>
  C7.  The claim: on a task whose annotation has no batch token the filter raises, and the
  exception leaves the task-fetching step; the task is not silently left out.  The filter
  does raise on such a task, and from a page with a continuation token the exception
  leaves \<open>fetch_and_filter_hits\<close>, the cycle and \<open>run\<close>.  But the tasks of the
  last page are never given to the filter: when the task is on the page without a token,
  \<open>fetch_and_filter_hits\<close> returns normally, without the task, and the cycle goes on.
\<close>

theorem missing_token_dropped_on_last_page:
  "batch_id_match python_example hit_unmarked 42 = Inl AttributeError
   \<and> list_hits unmarked None = \<lparr>NEXT_TOKEN = Some ''t1'', HITs = [hit1, hit_unmarked]\<rparr>
   \<and> fetch_and_filter_hits python_example monitor42 unmarked = Some (Inl AttributeError)
   \<and> cycle python_example monitor42 unmarked = Some ([], Some AttributeError)
   \<and> run_loop python_example monitor42 [unmarked, two_pages] = ([], Raised AttributeError)
   \<and> list_hits unmarked_last None = \<lparr>NEXT_TOKEN = None, HITs = [hit_unmarked]\<rparr>
   \<and> fetch_and_filter_hits python_example monitor42 unmarked_last = Some (Inr [])
   \<and> cycle python_example monitor42 unmarked_last = Some ([Warn, Sleep 10], None)"
proof -
  have s: "served_hits unmarked None [hits_page_unmarked] (Some ''t1'')"
    by (simp add: unmarked_def hits_page_unmarked_def)
  have p: "pages_matching python_example [hits_page_unmarked] 42 = Inl AttributeError"
    by (simp add: hits_page_unmarked_def batch_id_match_hit1 batch_id_match_hit_unmarked)
  have f: "fetch_and_filter_hits python_example monitor42 unmarked = Some (Inl AttributeError)"
    unfolding fetch_and_filter_hits_def monitor42_fields
    by (simp only: fetch_hits_loop_served [OF s] p sum.case)
  have w: "fetch_workers_with_qualification monitor42 unmarked = Some [''W1'']"
    "fetch_workers_with_qualification monitor42 unmarked_last = Some [''W1'']"
    by (rule fetch_workers_first_page, simp add: unmarked_def)
       (rule fetch_workers_first_page, simp add: unmarked_last_def)
  have c: "cycle python_example monitor42 unmarked = Some ([], Some AttributeError)"
    by (simp add: cycle_def w f)
  have l: "fetch_and_filter_hits python_example monitor42 unmarked_last = Some (Inr [])"
    by (rule fetch_first_response_last) (simp add: unmarked_last_def)
  have cl: "cycle python_example monitor42 unmarked_last = Some ([Warn, Sleep 10], None)"
    by (simp add: cycle_no_hits [OF w(2) l] monitor42_fields time_sleep_10)
  have "list_hits unmarked None = \<lparr>NEXT_TOKEN = Some ''t1'', HITs = [hit1, hit_unmarked]\<rparr>"
    "list_hits unmarked_last None = \<lparr>NEXT_TOKEN = None, HITs = [hit_unmarked]\<rparr>"
    by (simp_all add: unmarked_def unmarked_last_def hits_page_unmarked_def)
  with batch_id_match_hit_unmarked f c l cl show ?thesis by simp
qed

section \<open>The claims on the paginated fetchers\<close>

text \<open>
  C1.  The claim: for every paginated sequence of task-listing responses, each with a
  continuation token except the last, \<open>fetch_and_filter_hits\<close> returns the tasks of
  every page that the batch filter accepts, in page order.  The code leaves the loop as
  soon as a response has no token, before it reads the tasks of that response.  On the
  two pages below, both holding a task of batch 42, the filter over both pages gives
  \<open>[hit1, hit2]\<close> and the function returns \<open>[hit1]\<close>.
\<close>

theorem fetch_and_filter_hits_loses_last_page:
  "fetch_and_filter_hits python_example monitor42 two_pages = Some (Inr [hit1])
   \<and> pages_matching python_example [hits_page1, hits_page2] (batch_id monitor42)
       = Inr [hit1, hit2]
   \<and> list_hits two_pages None = hits_page1
   \<and> list_hits two_pages (NEXT_TOKEN hits_page1) = hits_page2
   \<and> NEXT_TOKEN hits_page2 = None"
proof -
  have "fetch_and_filter_hits python_example monitor42 two_pages = Some (Inr [hit1])"
    by (rule fetch_hits_first_page) (rule refl)
  moreover have "pages_matching python_example [hits_page1, hits_page2] (batch_id monitor42)
       = Inr [hit1, hit2]"
    by (simp add: monitor42_fields hits_page1_def hits_page2_def batch_id_match_hit1)
  moreover have "list_hits two_pages None = hits_page1"
    "list_hits two_pages (NEXT_TOKEN hits_page1) = hits_page2" "NEXT_TOKEN hits_page2 = None"
    by (simp_all add: two_pages_def hits_page1_def hits_page2_def)
  ultimately show ?thesis by blast
qed

text \<open>
  C2.  The claim: \<open>fetch_workers_with_qualification\<close> returns the worker identifiers
  of every page of the listing, in fetch order.  Its loop leaves in the same way: of the
  two pages below, holding \<open>W1\<close> and \<open>W2\<close>, it returns \<open>W1\<close> only.
\<close>

theorem fetch_workers_loses_last_page:
  "fetch_workers_with_qualification monitor42 two_pages = Some [''W1'']
   \<and> list_workers_with_qualification_type two_pages ''Granted'' ''Q1'' None = workers_page1
   \<and> list_workers_with_qualification_type two_pages ''Granted'' ''Q1''
        (QUAL_NEXT_TOKEN workers_page1) = workers_page2
   \<and> QUAL_NEXT_TOKEN workers_page2 = None
   \<and> map QUAL_WORKER_ID (QUALIFICATIONS workers_page1 @ QUALIFICATIONS workers_page2)
       = [''W1'', ''W2'']"
proof -
  let ?call = "list_workers_with_qualification_type two_pages ''Granted'' ''Q1''"
  have s: "served_workers ?call None [workers_page1] (Some ''t1'')"
    by (simp add: two_pages_def workers_page1_def)
  have l: "QUAL_NEXT_TOKEN (?call (Some ''t1'')) = None"
    by (simp add: two_pages_def workers_page2_def)
  have q: "blacklist_qualification_id monitor42 = ''Q1''"
    by (simp add: monitor42_def MTWorkerMonitor_init_def)
  have "fetch_workers_with_qualification monitor42 two_pages = Some [''W1'']"
    unfolding fetch_workers_with_qualification_def q
    by (simp add: fetch_workers_loop_served [OF s] fetch_workers_loop_stop [of ?call "Some ''t1''", OF l] workers_page1_def)
  moreover have "?call None = workers_page1" "?call (QUAL_NEXT_TOKEN workers_page1) = workers_page2"
    "QUAL_NEXT_TOKEN workers_page2 = None"
    "map QUAL_WORKER_ID (QUALIFICATIONS workers_page1 @ QUALIFICATIONS workers_page2)
       = [''W1'', ''W2'']"
    by (simp_all add: two_pages_def workers_page1_def workers_page2_def)
  ultimately show ?thesis by blast
qed

text \<open>
  C3.  A response without continuation token ends the loop before its records are read.
  After the responses \<open>pages\<close>, each with a token, and a response without one, the
  result is made of \<open>pages\<close> alone, whatever the last response holds; when the first
  response has no token the result is the empty list.  Both fetchers behave so.
\<close>

theorem last_response_discarded:
  "(served_hits mt None pages tok \<and> NEXT_TOKEN (list_hits mt tok) = None \<longrightarrow>
      fetch_and_filter_hits py self mt = Some (pages_matching py pages (batch_id self)))
   \<and> (NEXT_TOKEN (list_hits mt None) = None \<longrightarrow> fetch_and_filter_hits py self mt = Some (Inr []))
   \<and> (served_workers
         (list_workers_with_qualification_type mt ''Granted'' (blacklist_qualification_id self))
         None wpages wtok
       \<and> QUAL_NEXT_TOKEN
           (list_workers_with_qualification_type mt ''Granted'' (blacklist_qualification_id self)
              wtok) = None \<longrightarrow>
      fetch_workers_with_qualification self mt =
        Some (concat (map (\<lambda>p. map QUAL_WORKER_ID (QUALIFICATIONS p)) wpages)))
   \<and> (QUAL_NEXT_TOKEN
         (list_workers_with_qualification_type mt ''Granted'' (blacklist_qualification_id self)
            None) = None \<longrightarrow>
      fetch_workers_with_qualification self mt = Some [])"
proof -
  have 1: "fetch_and_filter_hits py self mt = Some (pages_matching py pages (batch_id self))"
    if s: "served_hits mt None pages tok" and l: "NEXT_TOKEN (list_hits mt tok) = None"
    unfolding fetch_and_filter_hits_def
    by (simp add: fetch_hits_loop_served [OF s] fetch_hits_loop_stop [OF l] split: sum.splits)
  have 2: "fetch_and_filter_hits py self mt = Some (Inr [])"
    if l: "NEXT_TOKEN (list_hits mt None) = None"
    unfolding fetch_and_filter_hits_def by (rule fetch_hits_loop_stop [OF l])
  let ?call = "list_workers_with_qualification_type mt ''Granted'' (blacklist_qualification_id self)"
  have 3: "fetch_workers_with_qualification self mt =
        Some (concat (map (\<lambda>p. map QUAL_WORKER_ID (QUALIFICATIONS p)) wpages))"
    if s: "served_workers ?call None wpages wtok" and l: "QUAL_NEXT_TOKEN (?call wtok) = None"
    unfolding fetch_workers_with_qualification_def
    by (simp add: fetch_workers_loop_served [OF s] fetch_workers_loop_stop [of ?call wtok, OF l])
  have 4: "fetch_workers_with_qualification self mt = Some []"
    if l: "QUAL_NEXT_TOKEN (?call None) = None"
    unfolding fetch_workers_with_qualification_def
    by (rule fetch_workers_loop_stop [of ?call None, OF l])
  from 1 2 3 4 show ?thesis by blast
qed

theorem last_response_discarded_witness:
  "NEXT_TOKEN (list_hits one_page None) = None
   \<and> HITs (list_hits one_page None) = [hit2]
   \<and> fetch_and_filter_hits python_example monitor42 one_page = Some (Inr [])
   \<and> QUAL_NEXT_TOKEN (list_workers_with_qualification_type one_page ''Granted''
        (blacklist_qualification_id monitor42) None) = None
   \<and> fetch_workers_with_qualification monitor42 one_page = Some []
   \<and> served_hits two_pages None [hits_page1] (Some ''t1'')
   \<and> list_hits two_pages (Some ''t1'') = hits_page2
   \<and> fetch_and_filter_hits python_example monitor42 two_pages = Some (Inr [hit1])"
proof -
  have one: "NEXT_TOKEN (list_hits one_page None) = None"
    "HITs (list_hits one_page None) = [hit2]"
    "QUAL_NEXT_TOKEN (list_workers_with_qualification_type one_page ''Granted''
        (blacklist_qualification_id monitor42) None) = None"
    by (simp_all add: one_page_def hits_page2_def workers_page2_def)
  have two: "served_hits two_pages None [hits_page1] (Some ''t1'')"
    "list_hits two_pages (Some ''t1'') = hits_page2" "NEXT_TOKEN hits_page2 = None"
    by (simp_all add: two_pages_def hits_page1_def hits_page2_def)
  have p: "pages_matching python_example [hits_page1] (batch_id monitor42) = Inr [hit1]"
    by (simp add: hits_page1_def monitor42_fields batch_id_match_hit1)
  from last_response_discarded
         [where mt = one_page and pages = "[]" and tok = None and py = python_example
            and self = monitor42 and wpages = "[]" and wtok = None]
    last_response_discarded
         [where mt = two_pages and pages = "[hits_page1]" and tok = "Some ''t1''"
            and py = python_example and self = monitor42 and wpages = "[]" and wtok = None]
    one two p
  show ?thesis by simp
qed

text \<open>
  C9.  \<open>fetch_workers_with_qualification\<close> reads nothing but the answers of the
  listing of the workers who were granted the configured qualification: two calls that
  get the same answers from this listing return the same worker identifiers (or both run
  forever), whatever else has changed in the marketplace in between.
\<close>

theorem fetch_workers_depends_on_listing_only:
  "blacklist_qualification_id self' = blacklist_qualification_id self \<Longrightarrow>
   list_workers_with_qualification_type mt' ''Granted'' (blacklist_qualification_id self)
     = list_workers_with_qualification_type mt ''Granted'' (blacklist_qualification_id self) \<Longrightarrow>
   fetch_workers_with_qualification self' mt' = fetch_workers_with_qualification self mt
   \<and> map_option set (fetch_workers_with_qualification self' mt')
       = map_option set (fetch_workers_with_qualification self mt)"
proof -
  assume q: "blacklist_qualification_id self' = blacklist_qualification_id self"
    and l: "list_workers_with_qualification_type mt' ''Granted'' (blacklist_qualification_id self)
     = list_workers_with_qualification_type mt ''Granted'' (blacklist_qualification_id self)"
  have "fetch_workers_with_qualification self' mt' = fetch_workers_with_qualification self mt"
    unfolding fetch_workers_with_qualification_def q l ..
  then show ?thesis by (simp only: simp_thms)
qed

theorem fetch_workers_depends_on_listing_only_witness:
  "list_hits other_hits None \<noteq> list_hits two_pages None
   \<and> fetch_workers_with_qualification monitor42 other_hits
       = fetch_workers_with_qualification monitor42 two_pages
   \<and> map_option set (fetch_workers_with_qualification monitor42 other_hits) = Some {''W1''}"
proof -
  have d: "list_hits other_hits None \<noteq> list_hits two_pages None"
    by (simp add: other_hits_def two_pages_def hits_page1_def hits_page2_def)
  have l: "list_workers_with_qualification_type other_hits ''Granted''
          (blacklist_qualification_id monitor42)
        = list_workers_with_qualification_type two_pages ''Granted''
          (blacklist_qualification_id monitor42)"
    unfolding other_hits_def by simp
  have w: "fetch_workers_with_qualification monitor42 two_pages = Some [''W1'']"
    by (rule fetch_workers_first_page) (rule refl)
  from fetch_workers_depends_on_listing_only [OF refl l]
  have e: "fetch_workers_with_qualification monitor42 other_hits
       = fetch_workers_with_qualification monitor42 two_pages" by (rule conjunct1)
  have "map_option set (fetch_workers_with_qualification monitor42 other_hits) = Some {''W1''}"
    unfolding e w by simp
  with d e show ?thesis by (simp only: simp_thms)
qed

section \<open>The claims on the tally phase\<close>

text \<open>
  C4.  With \<open>max_hits = 3\<close>, an empty set of disqualified workers and one task whose
  assignments come from the workers A, A, B, A, C, B in this order, the tally phase grants
  the qualification to A once and to nobody else.  In general, an assignment of worker
  \<open>w\<close> adds one to the count of \<open>w\<close> and leads to a grant exactly when the new count
  is at least \<open>max_hits\<close> and \<open>w\<close> is not in the set of disqualified workers as
  extended so far; over the whole phase the workers granted are those with an assignment,
  outside the set fetched at the start, whose count is at least \<open>max_hits\<close>.
\<close>

theorem grant_when_count_reaches_max_hits:
  "(max_hits self = 3 \<and> distinct [A, B, C]
      \<and> ASSIGNMENTS (list_assignments_for_hit mt (HIT_ID h) [''Submitted'', ''Approved''])
          = map (\<lambda>w. \<lparr>WORKER_ID = w\<rparr>) [A, A, B, A, C, B] \<longrightarrow>
      granted (effects (tally_phase self mt {} [h])) = [A])
   \<and> granted (effects (count_assignment self st a)) =
       granted (effects st) @
         (if max_hits self \<le> worker_counter st (WORKER_ID a) + 1
             \<and> WORKER_ID a \<notin> blacklisted_workers st
          then [WORKER_ID a] else [])
   \<and> worker_counter (count_assignment self st a) (WORKER_ID a)
       = worker_counter st (WORKER_ID a) + 1
   \<and> (w \<in> set (granted (effects (tally_phase self mt blacklisted hits))) \<longleftrightarrow>
        w \<in> WORKER_ID ` set (assignments_of mt hits) \<and> w \<notin> blacklisted
        \<and> max_hits self \<le> int (count_list (map WORKER_ID (assignments_of mt hits)) w))"
proof -
  have 1: "granted (effects (tally_phase self mt {} [h])) = [A]"
    if m: "max_hits self = 3" and d: "distinct [A, B, C]"
      and a: "ASSIGNMENTS (list_assignments_for_hit mt (HIT_ID h) [''Submitted'', ''Approved''])
          = map (\<lambda>w. \<lparr>WORKER_ID = w\<rparr>) [A, A, B, A, C, B]"
  proof -
    have as: "map WORKER_ID (assignments_of mt [h]) = [A, A, B, A, C, B]"
      by (simp add: assignments_of_def a)
    have im: "WORKER_ID ` set (assignments_of mt [h]) = {A, B, C}"
      using arg_cong [OF as, of set] by (simp only: set_map) auto
    have cnt: "count_list [A, A, B, A, C, B] A = 3" "count_list [A, A, B, A, C, B] B = 2"
      "count_list [A, A, B, A, C, B] C = 1"
      using d by auto
    from tally_invariant [of self "{}" "assignments_of mt [h]"]
    have dist: "distinct (granted (effects (tally_phase self mt {} [h])))"
      and st: "set (granted (effects (tally_phase self mt {} [h]))) =
         {w \<in> {A, B, C}. 3 \<le> int (count_list [A, A, B, A, C, B] w)}"
      by (simp_all only: tally_phase_flat as im m) simp_all
    have "{w \<in> {A, B, C}. 3 \<le> int (count_list [A, A, B, A, C, B] w)} = {A}"
      using cnt by auto
    with st have "set (granted (effects (tally_phase self mt {} [h]))) = {A}" by simp
    with dist show ?thesis by (rule distinct_set_single)
  qed
  have 2: "w \<in> set (granted (effects (tally_phase self mt blacklisted hits))) \<longleftrightarrow>
        w \<in> WORKER_ID ` set (assignments_of mt hits) \<and> w \<notin> blacklisted
        \<and> max_hits self \<le> int (count_list (map WORKER_ID (assignments_of mt hits)) w)"
    using tally_invariant [of self blacklisted "assignments_of mt hits"]
    by (simp add: tally_phase_flat)
  have 3: "granted (effects (count_assignment self st a)) =
       granted (effects st) @
         (if max_hits self \<le> worker_counter st (WORKER_ID a) + 1
             \<and> WORKER_ID a \<notin> blacklisted_workers st
          then [WORKER_ID a] else [])"
    by (rule granted_count_assignment)
  have 4: "worker_counter (count_assignment self st a) (WORKER_ID a)
       = worker_counter st (WORKER_ID a) + 1"
    by (simp add: counter_count_assignment)
  from 1 2 3 4 show ?thesis by blast
qed

theorem grant_when_count_reaches_max_hits_witness:
  "max_hits monitor42 = 3
   \<and> ASSIGNMENTS (list_assignments_for_hit two_pages (HIT_ID hit1) [''Submitted'', ''Approved''])
       = map (\<lambda>w. \<lparr>WORKER_ID = w\<rparr>) [''A'', ''A'', ''B'', ''A'', ''C'', ''B'']
   \<and> granted (effects (tally_phase monitor42 two_pages {} [hit1])) = [''A'']"
proof -
  have h: "max_hits monitor42 = 3 \<and> distinct [''A'', ''B'', ''C'']
     \<and> ASSIGNMENTS (list_assignments_for_hit two_pages (HIT_ID hit1) [''Submitted'', ''Approved''])
       = map (\<lambda>w. \<lparr>WORKER_ID = w\<rparr>) [''A'', ''A'', ''B'', ''A'', ''C'', ''B'']"
    by (simp add: monitor42_fields two_pages_def hit1_def scenario_assignments_def)
  from grant_when_count_reaches_max_hits
    [of monitor42 "''A''" "''B''" "''C''" two_pages hit1, THEN conjunct1, rule_format, OF h] h
  show ?thesis by blast
qed

text \<open>
  C5.  In one cycle, however it ends, the qualification is granted to a worker at most
  once, and never to a worker that the listing fetched at the start of the cycle already
  holds.
\<close>

theorem at_most_one_grant_per_cycle:
  "cycle py self mt = Some (evs, err) \<Longrightarrow>
   fetch_workers_with_qualification self mt = Some ws \<Longrightarrow>
   count_list (granted evs) w \<le> 1 \<and> (w \<in> set ws \<longrightarrow> count_list (granted evs) w = 0)"
proof -
  assume c: "cycle py self mt = Some (evs, err)"
    and f: "fetch_workers_with_qualification self mt = Some ws"
  from granted_cycle [OF c] f consider "granted evs = []"
    | hits where "granted evs = granted (effects (tally_phase self mt (set ws) hits))"
    by auto
  then have dn: "distinct (granted evs) \<and> (w \<in> set ws \<longrightarrow> w \<notin> set (granted evs))"
  proof cases
    case 1
    then show ?thesis by simp
  next
    case g: 2
    from tally_invariant [of self "set ws" "assignments_of mt hits"]
    show ?thesis by (simp add: g tally_phase_flat)
  qed
  then have d: "distinct (granted evs)" and n: "w \<in> set ws \<Longrightarrow> w \<notin> set (granted evs)"
    by simp_all
  from d have "count_list (granted evs) w \<le> 1"
    by (rule count_list_distinct)
  moreover from n have "w \<in> set ws \<longrightarrow> count_list (granted evs) w = 0"
    by (simp add: count_list_0_iff)
  ultimately show ?thesis by blast
qed

theorem at_most_one_grant_per_cycle_witness:
  "cycle python_example monitor42 busy =
     Some ([AssociateQualification ''A'' ''Q1'' False, LogInfo (WorkerBlacklisted ''A''),
            Sleep 10], None)
   \<and> fetch_workers_with_qualification monitor42 busy = Some [''W1'']
   \<and> count_list (map WORKER_ID busy_assignments) ''A'' = 4
   \<and> count_list (map WORKER_ID busy_assignments) ''W1'' = 3
   \<and> count_list (granted [AssociateQualification ''A'' ''Q1'' False,
                            LogInfo (WorkerBlacklisted ''A''), Sleep 10]) ''A'' \<le> 1
   \<and> count_list (granted [AssociateQualification ''A'' ''Q1'' False,
                            LogInfo (WorkerBlacklisted ''A''), Sleep 10]) ''W1'' = 0"
proof -
  have w: "fetch_workers_with_qualification monitor42 busy = Some [''W1'']"
    by (rule fetch_workers_first_page) (simp add: busy_def)
  from at_most_one_grant_per_cycle [OF cycle_busy w, of "''A''"]
    at_most_one_grant_per_cycle [OF cycle_busy w, of "''W1''"]
  show ?thesis
    by (simp add: cycle_busy w busy_assignments_def)
qed

text \<open>
  C10.  The constructor stores \<open>max_hits\<close> as it is given, zero and negative values
  included.  When \<open>max_hits\<close> is at most 1, every assignment of a worker who is not in
  the set of disqualified workers, as extended so far in the cycle, is followed at once by
  a grant to that worker.
\<close>

theorem max_hits_unvalidated:
  "max_hits (MTWorkerMonitor_init m b k s u q r t) = m
   \<and> (m \<le> 1
      \<and> WORKER_ID a \<notin> blacklisted_workers
            (foldl (count_assignment (MTWorkerMonitor_init m b k s u q r t))
               (fresh_tally blacklisted) pre) \<longrightarrow>
      effects (foldl (count_assignment (MTWorkerMonitor_init m b k s u q r t))
                 (fresh_tally blacklisted) (pre @ [a]))
      = effects (foldl (count_assignment (MTWorkerMonitor_init m b k s u q r t))
                   (fresh_tally blacklisted) pre)
        @ [AssociateQualification (WORKER_ID a) q False,
           LogInfo (WorkerBlacklisted (WORKER_ID a))])"
proof -
  let ?self = "MTWorkerMonitor_init m b k s u q r t"
  let ?st = "foldl (count_assignment ?self) (fresh_tally blacklisted) pre"
  have f: "max_hits ?self = m" "blacklist_qualification_id ?self = q"
    by (simp_all add: MTWorkerMonitor_init_def)
  from tally_invariant [of ?self blacklisted pre]
  have c: "0 \<le> worker_counter ?st (WORKER_ID a)" by simp
  have "effects (count_assignment ?self ?st a)
      = effects ?st @ [AssociateQualification (WORKER_ID a) q False,
           LogInfo (WorkerBlacklisted (WORKER_ID a))]"
    if "m \<le> 1" "WORKER_ID a \<notin> blacklisted_workers ?st"
    using that c by (simp add: count_assignment_def Let_def f)
  with f show ?thesis by simp
qed

theorem max_hits_unvalidated_witness:
  "max_hits (MTWorkerMonitor_init (- 5) 42 ''key'' ''secret'' ''url'' ''Q1'' ''us-east-1'' 10) = - 5
   \<and> effects (foldl (count_assignment
                 (MTWorkerMonitor_init (- 5) 42 ''key'' ''secret'' ''url'' ''Q1'' ''us-east-1'' 10))
               (fresh_tally {}) ([] @ [\<lparr>WORKER_ID = ''A''\<rparr>]))
       = [AssociateQualification ''A'' ''Q1'' False, LogInfo (WorkerBlacklisted ''A'')]"
  using max_hits_unvalidated
    [of "- 5" 42 "''key''" "''secret''" "''url''" "''Q1''" "''us-east-1''" 10
        "\<lparr>WORKER_ID = ''A''\<rparr>" "{}" "[]"]
  by (simp add: fresh_tally_def)

section \<open>The claims on the cycle\<close>

text \<open>
  C8.  The claim: in any cycle whose task list is empty a warning is emitted, nothing is
  raised, nothing is granted, and the loop sleeps and starts the next cycle.  The
  constructor stores \<open>sleep_time\<close> as it is given, and \<open>time.sleep\<close> raises on an
  interval that is negative or too long: with \<open>sleep_time = -1\<close> the cycle warns and
  then ends the run with \<open>ValueError\<close>, with \<open>sleep_time\<close> of ten thousand million
  seconds with \<open>OverflowError\<close>.
\<close>

theorem empty_batch_sleep_raises:
  "fetch_workers_with_qualification monitor_negative_sleep one_page = Some []
   \<and> fetch_and_filter_hits python_example monitor_negative_sleep one_page = Some (Inr [])
   \<and> sleep_time monitor_negative_sleep = - 1
   \<and> cycle python_example monitor_negative_sleep one_page = Some ([Warn], Some ValueError)
   \<and> run_loop python_example monitor_negative_sleep [one_page, one_page]
       = ([Warn], Raised ValueError)
   \<and> sleep_time monitor_long_sleep = 10000000000
   \<and> cycle python_example monitor_long_sleep one_page = Some ([Warn], Some OverflowError)
   \<and> run_loop python_example monitor_long_sleep [one_page, one_page]
       = ([Warn], Raised OverflowError)"
proof -
  have t: "sleep_time monitor_negative_sleep = - 1" "sleep_time monitor_long_sleep = 10000000000"
    by (simp_all add: monitor_negative_sleep_def monitor_long_sleep_def MTWorkerMonitor_init_def)
  have s: "time_sleep python_example (- 1) = Some ValueError"
    "time_sleep python_example 10000000000 = Some OverflowError"
    by (simp_all add: time_sleep_def python_example_def)
  have c: "cycle python_example monitor_negative_sleep one_page = Some ([Warn], Some ValueError)"
    "cycle python_example monitor_long_sleep one_page = Some ([Warn], Some OverflowError)"
    by (simp_all add: cycle_no_hits [OF fetch_one_page] t s)
  with t show ?thesis by (simp add: fetch_one_page)
qed

text \<open>
  C8, as the code has it.  When \<open>sleep_time\<close> is an interval that \<open>time.sleep\<close>
  accepts, not negative and not beyond its bound, a cycle whose two fetches return and
  whose task list is empty calls \<open>warnings.warn\<close>, grants nothing, raises nothing and
  sleeps; the loop then goes on with the next cycle.
\<close>

theorem empty_batch_warns_and_sleeps:
  "fetch_workers_with_qualification self mt = Some ws \<Longrightarrow>
   fetch_and_filter_hits py self mt = Some (Inr []) \<Longrightarrow>
   0 \<le> sleep_time self \<Longrightarrow> sleep_time self \<le> sleep_max py \<Longrightarrow>
   cycle py self mt = Some ([Warn, Sleep (sleep_time self)], None)
   \<and> granted [Warn, Sleep (sleep_time self)] = []
   \<and> run_loop py self (mt # mts) =
       ([Warn, Sleep (sleep_time self)] @ fst (run_loop py self mts), snd (run_loop py self mts))"
proof -
  assume w: "fetch_workers_with_qualification self mt = Some ws"
    and h: "fetch_and_filter_hits py self mt = Some (Inr [])"
    and t: "0 \<le> sleep_time self" "sleep_time self \<le> sleep_max py"
  from t have "time_sleep py (sleep_time self) = None"
    by (simp add: time_sleep_def)
  with cycle_no_hits [OF w h]
  have c: "cycle py self mt = Some ([Warn, Sleep (sleep_time self)], None)"
    by simp
  then show ?thesis by simp
qed

theorem empty_batch_warns_and_sleeps_witness:
  "fetch_workers_with_qualification monitor42 one_page = Some []
   \<and> fetch_and_filter_hits python_example monitor42 one_page = Some (Inr [])
   \<and> 0 \<le> sleep_time monitor42 \<and> sleep_time monitor42 \<le> sleep_max python_example
   \<and> cycle python_example monitor42 one_page = Some ([Warn, Sleep 10], None)
   \<and> run_loop python_example monitor42 [one_page, one_page]
       = ([Warn, Sleep 10, Warn, Sleep 10], Running)"
proof -
  have t: "0 \<le> sleep_time monitor42" "sleep_time monitor42 \<le> sleep_max python_example"
    by (simp_all add: monitor42_fields python_example_def)
  from empty_batch_warns_and_sleeps [OF fetch_one_page t, of "[one_page]"]
    empty_batch_warns_and_sleeps [OF fetch_one_page t, of "[]"]
    t
  show ?thesis by (simp add: monitor42_fields fetch_one_page)
qed

end
